theory Spec2Isabelle
  imports Main
begin

section \<open>The management command \<open>check_production_ready\<close>\<close>

text \<open>
  The repository is one Django management command, \<open>Command.handle\<close> in
  \<open>apps/core/management/commands/check_production_ready.py\<close>. It reads five attributes
  of the ambient settings object and writes styled messages to its standard output.
  The model below follows the method statement by statement.
\<close>

subsection \<open>Text\<close>

text \<open>
  A Python \<open>str\<close> is held as the list of its UTF-8 bytes. Concatenation and equality
  commute with that encoding, and so does the test \<open>needle in hay\<close> for the two needles
  the command uses: both are ASCII, and an ASCII byte never occurs inside the encoding
  of another code point. The characters of the source that are not ASCII are named here.
\<close>

definition nl :: string where
  \<comment> \<open>the escape \<open>\n\<close>\<close>
  "nl = [CHR 0x0A]"

definition o_acute :: string where
  \<comment> \<open>U+00F3\<close>
  "o_acute = [CHR 0xC3, CHR 0xB3]"

definition a_acute :: string where
  \<comment> \<open>U+00E1\<close>
  "a_acute = [CHR 0xC3, CHR 0xA1]"

definition i_acute :: string where
  \<comment> \<open>U+00ED\<close>
  "i_acute = [CHR 0xC3, CHR 0xAD]"

definition emoji_target :: string where
  \<comment> \<open>U+1F3AF\<close>
  "emoji_target = [CHR 0xF0, CHR 0x9F, CHR 0x8E, CHR 0xAF]"

definition emoji_warning :: string where
  \<comment> \<open>U+26A0 U+FE0F\<close>
  "emoji_warning = [CHR 0xE2, CHR 0x9A, CHR 0xA0, CHR 0xEF, CHR 0xB8, CHR 0x8F]"

definition emoji_check :: string where
  \<comment> \<open>U+2705\<close>
  "emoji_check = [CHR 0xE2, CHR 0x9C, CHR 0x85]"

definition emoji_cross :: string where
  \<comment> \<open>U+274C\<close>
  "emoji_cross = [CHR 0xE2, CHR 0x9D, CHR 0x8C]"

definition emoji_party :: string where
  \<comment> \<open>U+1F389\<close>
  "emoji_party = [CHR 0xF0, CHR 0x9F, CHR 0x8E, CHR 0x89]"

definition emoji_clipboard :: string where
  \<comment> \<open>U+1F4CB\<close>
  "emoji_clipboard = [CHR 0xF0, CHR 0x9F, CHR 0x93, CHR 0x8B]"

definition emoji_wrench :: string where
  \<comment> \<open>U+1F527\<close>
  "emoji_wrench = [CHR 0xF0, CHR 0x9F, CHR 0x94, CHR 0xA7]"

text \<open>Python's \<open>s * n\<close> on a string, for a count that is not negative.\<close>

definition str_mul :: "string \<Rightarrow> nat \<Rightarrow> string" where
  "str_mul s n = concat (replicate n s)"

text \<open>Python's \<open>hay.startswith(needle)\<close> and \<open>needle in hay\<close> on strings.\<close>

fun startswith :: "string \<Rightarrow> string \<Rightarrow> bool" where
  "startswith hay [] = True"
| "startswith [] (c # cs) = False"
| "startswith (h # hs) (c # cs) = (h = c \<and> startswith hs cs)"

fun str_in :: "string \<Rightarrow> string \<Rightarrow> bool" where
  "str_in needle [] = (needle = [])"
| "str_in needle (h # hs) = (startswith (h # hs) needle \<or> str_in needle hs)"

subsection \<open>Settings, styles and the output stream\<close>

text \<open>
  The settings object is opaque to the command: an attribute is either there, with a
  value, or not there. \<open>None\<close> is an attribute the object does not supply, so that
  \<open>settings.NAME\<close> raises and \<open>hasattr(settings, 'NAME')\<close> is false. The values have
  the types a settings module gives them, a boolean, strings and a list of strings, so
  that \<open>if settings.DEBUG\<close> tests the boolean, \<open>in settings.SECRET_KEY\<close> is the
  substring test and \<open>in settings.ALLOWED_HOSTS\<close> is membership in the list.
\<close>

record settings =
  DEBUG :: "bool option"
  SECRET_KEY :: "string option"
  TENANT_DOMAIN :: "string option"
  ALLOWED_HOSTS :: "string list option"
  TENANT_MODEL :: "string option"

datatype error = AttributeError string

text \<open>
  \<open>self.style.SUCCESS(text)\<close>, \<open>self.style.WARNING(text)\<close> and \<open>self.style.ERROR(text)\<close>
  tag a text with a style; how a terminal renders the style is not the command's business.
\<close>

datatype style = SUCCESS | WARNING | ERROR

type_synonym styled = "style \<times> string"

text \<open>
  What the command can touch: the settings, the output stream (one entry per call of
  \<open>self.stdout.write\<close>), and everything else, which is the record's extension.
\<close>

record world =
  settings :: settings
  stdout :: "styled list"

definition stdout_write :: "styled \<Rightarrow> 'a world_scheme \<Rightarrow> 'a world_scheme" where
  "stdout_write m w = w\<lparr>stdout := stdout w @ [m]\<rparr>"

subsection \<open>The messages\<close>

definition banner :: string where
  \<comment> \<open>Adjacent literals are joined before \<open>*\<close> applies, so the whole text is repeated.\<close>
  "banner = str_mul (emoji_target @ '' Verificando configuraci'' @ o_acute @ ''n para producci''
      @ o_acute @ ''n en Render'' @ nl @ ''='') 60"

definition debug_warning :: string where
  "debug_warning = emoji_warning @ ''  Ejecutando en modo DEBUG (desarrollo)'' @ nl
      @ ''   En producci'' @ o_acute @ ''n, Render configurar'' @ a_acute
      @ '' DEBUG=False autom'' @ a_acute @ ''ticamente''"

definition secret_key_warning :: string where
  "secret_key_warning = emoji_warning @ ''  SECRET_KEY de desarrollo detectada'' @ nl
      @ ''   En producci'' @ o_acute
      @ ''n, configurar SECRET_KEY segura en variables de entorno''"

definition tenant_domain_ok :: "string \<Rightarrow> string" where
  "tenant_domain_ok d = emoji_check @ '' TENANT_DOMAIN configurado: '' @ d"

definition tenant_domain_missing :: string where
  "tenant_domain_missing = emoji_cross @ '' TENANT_DOMAIN no configurado''"

definition allowed_hosts_ok :: string where
  "allowed_hosts_ok = emoji_check @ '' ALLOWED_HOSTS incluye *.zentoerp.com''"

definition allowed_hosts_missing :: string where
  "allowed_hosts_missing = emoji_cross @ '' ALLOWED_HOSTS no incluye *.zentoerp.com''"

definition tenant_model_ok :: string where
  "tenant_model_ok = emoji_check @ '' Modelos de tenant configurados correctamente''"

definition summary :: "string \<Rightarrow> string" where
  "summary tm = nl @ emoji_party @ '' Configuraci'' @ o_acute @ ''n base lista para producci''
      @ o_acute @ ''n!'' @ nl
      @ ''   Dominio objetivo: zentoerp.com'' @ nl
      @ ''   Subdominios: *.zentoerp.com'' @ nl
      @ ''   Modelo tenant: '' @ tm @ nl
      @ nl @ emoji_clipboard @ '' Pasos para producci'' @ o_acute @ ''n:'' @ nl
      @ ''   1. Crear servicios en Render (PostgreSQL, Redis, Web)'' @ nl
      @ ''   2. Configurar variables de entorno en Render'' @ nl
      @ ''   3. Configurar DNS (A record + CNAME *)'' @ nl
      @ ''   4. Deploy autom'' @ a_acute @ ''tico desde branch production'' @ nl
      @ nl @ emoji_wrench @ '' Variables cr'' @ i_acute @ ''ticas para Render:'' @ nl
      @ ''   - SECRET_KEY: Generar clave segura'' @ nl
      @ ''   - DEBUG: False'' @ nl
      @ ''   - ALLOWED_HOSTS: zentoerp.com,*.zentoerp.com'' @ nl
      @ ''   - DB_* : Credenciales de PostgreSQL'' @ nl
      @ ''   - REDIS_URL: URL de Redis'' @ nl"

subsection \<open>\<open>Command.handle\<close>\<close>

text \<open>
  The method, with the world threaded through. Reading \<open>settings.DEBUG\<close>,
  \<open>settings.SECRET_KEY\<close> or \<open>settings.ALLOWED_HOSTS\<close> raises when the attribute is not
  there; nothing catches it, so the method stops with what it has written so far.
  \<open>hasattr\<close> and \<open>getattr\<close> with a default never raise. A normal return is \<open>Inr ()\<close>.
\<close>

definition handle :: "'a world_scheme \<Rightarrow> (error + unit) \<times> 'a world_scheme" where
  "handle w0 =
    (let w1 = stdout_write (SUCCESS, banner) w0 in
     (case DEBUG (settings w1) of
        None \<Rightarrow> (Inl (AttributeError ''DEBUG''), w1)
      | Some debug \<Rightarrow>
     (let w2 = (if debug then stdout_write (WARNING, debug_warning) w1 else w1) in
     (case SECRET_KEY (settings w2) of
        None \<Rightarrow> (Inl (AttributeError ''SECRET_KEY''), w2)
      | Some secret_key \<Rightarrow>
     (let w3 = (if str_in ''django-insecure'' secret_key
                then stdout_write (WARNING, secret_key_warning) w2 else w2);
          w4 = (case TENANT_DOMAIN (settings w3) of
                  Some tenant_domain \<Rightarrow>
                    stdout_write (SUCCESS, tenant_domain_ok tenant_domain) w3
                | None \<Rightarrow> stdout_write (ERROR, tenant_domain_missing) w3) in
     (case ALLOWED_HOSTS (settings w4) of
        None \<Rightarrow> (Inl (AttributeError ''ALLOWED_HOSTS''), w4)
      | Some allowed_hosts \<Rightarrow>
     (let w5 = (if ''*.zentoerp.com'' \<in> set allowed_hosts
                then stdout_write (SUCCESS, allowed_hosts_ok) w4
                else stdout_write (ERROR, allowed_hosts_missing) w4);
          w6 = (if TENANT_MODEL (settings w5) \<noteq> None
                   \<and> TENANT_MODEL (settings w5) = Some ''tenants.Tenant''
                then stdout_write (SUCCESS, tenant_model_ok) w5 else w5);
          w7 = stdout_write
                 (SUCCESS, summary (case TENANT_MODEL (settings w6) of
                                      Some tenant_model \<Rightarrow> tenant_model
                                    | None \<Rightarrow> ''No configurado'')) w6
      in (Inr (), w7))))))))"

text \<open>The messages one invocation writes: what it appended to the stream it found.\<close>

definition emitted :: "'a world_scheme \<Rightarrow> styled list" where
  "emitted w = drop (length (stdout w)) (stdout (snd (handle w)))"

text \<open>
  The status of the process is not set by the command but by the interpreter that runs
  it: 0 when the method returns, 1 when an exception leaves it uncaught.
\<close>

definition exit_code :: "error + unit \<Rightarrow> int" where
  "exit_code r = (case r of Inr _ \<Rightarrow> 0 | Inl _ \<Rightarrow> 1)"

subsection \<open>Example settings\<close>

text \<open>
  Two settings objects to run the command on: one as a production deployment would have
  it, one as a developer's machine would.
\<close>

definition production_settings :: settings where
  "production_settings = \<lparr>DEBUG = Some False, SECRET_KEY = Some ''k3y-from-the-environment'',
     TENANT_DOMAIN = Some ''acme.zentoerp.com'',
     ALLOWED_HOSTS = Some [''zentoerp.com'', ''*.zentoerp.com''],
     TENANT_MODEL = Some ''tenants.Tenant''\<rparr>"

definition development_settings :: settings where
  "development_settings = \<lparr>DEBUG = Some True, SECRET_KEY = Some ''django-insecure-0000'',
     TENANT_DOMAIN = None, ALLOWED_HOSTS = Some [''zentoerp.com''], TENANT_MODEL = None\<rparr>"

text \<open>The world of a process that has written nothing yet.\<close>

definition fresh :: "settings \<Rightarrow> world" where
  "fresh s = \<lparr>settings = s, stdout = []\<rparr>"

section \<open>Properties\<close>

subsection \<open>Text operations\<close>

lemma str_mul_Suc: "str_mul s (Suc n) = s @ str_mul s n"
  by (simp add: str_mul_def)

lemma banner_head: "\<exists>r. banner = CHR 0xF0 # r"
proof -
  have "(60::nat) = Suc 59" by simp
  then show ?thesis
    unfolding banner_def emoji_target_def by (simp only: str_mul_Suc) simp
qed

lemma startswith_iff: "startswith hay needle \<longleftrightarrow> (\<exists>suf. hay = needle @ suf)"
  by (induction hay needle rule: startswith.induct) auto

lemma str_in_iff: "str_in needle hay \<longleftrightarrow> (\<exists>pre suf. hay = pre @ needle @ suf)"
proof (induction hay)
  case Nil
  then show ?case by auto
next
  case (Cons h hs)
  show ?case
  proof
    assume "str_in needle (h # hs)"
    then consider "startswith (h # hs) needle" | "str_in needle hs" by auto
    then show "\<exists>pre suf. h # hs = pre @ needle @ suf"
    proof cases
      case 1
      then obtain suf where "h # hs = needle @ suf" by (auto simp: startswith_iff)
      then have "h # hs = [] @ needle @ suf" by simp
      then show ?thesis by blast
    next
      case 2
      then obtain pre suf where "hs = pre @ needle @ suf" using Cons.IH by auto
      then have "h # hs = (h # pre) @ needle @ suf" by simp
      then show ?thesis by blast
    qed
  next
    assume "\<exists>pre suf. h # hs = pre @ needle @ suf"
    then obtain pre suf where e: "h # hs = pre @ needle @ suf" by blast
    show "str_in needle (h # hs)"
    proof (cases pre)
      case Nil
      then have "startswith (h # hs) needle" using e by (auto simp: startswith_iff)
      then show ?thesis by simp
    next
      case (Cons p ps)
      then have "hs = ps @ needle @ suf" using e by simp
      then have "str_in needle hs" using Cons.IH by blast
      then show ?thesis by simp
    qed
  qed
qed

subsection \<open>The method in closed form\<close>

lemma settings_stdout_write [simp]: "settings (stdout_write m w) = settings w"
  by (simp add: stdout_write_def)

lemma stdout_stdout_write [simp]: "stdout (stdout_write m w) = stdout w @ [m]"
  by (simp add: stdout_write_def)

lemma emitted_eq:
  "emitted w =
    (SUCCESS, banner) #
    (case DEBUG (settings w) of None \<Rightarrow> [] | Some debug \<Rightarrow>
      (if debug then [(WARNING, debug_warning)] else []) @
      (case SECRET_KEY (settings w) of None \<Rightarrow> [] | Some secret_key \<Rightarrow>
        (if str_in ''django-insecure'' secret_key then [(WARNING, secret_key_warning)] else []) @
        (case TENANT_DOMAIN (settings w) of
           Some tenant_domain \<Rightarrow> (SUCCESS, tenant_domain_ok tenant_domain)
         | None \<Rightarrow> (ERROR, tenant_domain_missing)) #
        (case ALLOWED_HOSTS (settings w) of None \<Rightarrow> [] | Some allowed_hosts \<Rightarrow>
          (if ''*.zentoerp.com'' \<in> set allowed_hosts
           then (SUCCESS, allowed_hosts_ok) else (ERROR, allowed_hosts_missing)) #
          (if TENANT_MODEL (settings w) = Some ''tenants.Tenant''
           then [(SUCCESS, tenant_model_ok)] else []) @
          [(SUCCESS, summary (case TENANT_MODEL (settings w) of
                                Some tenant_model \<Rightarrow> tenant_model
                              | None \<Rightarrow> ''No configurado''))])))"
proof (cases "DEBUG (settings w)")
  case None
  then show ?thesis by (simp add: emitted_def handle_def Let_def)
next
  case d: (Some debug)
  show ?thesis
  proof (cases "SECRET_KEY (settings w)")
    case None
    with d show ?thesis by (simp add: emitted_def handle_def Let_def)
  next
    case k: (Some secret_key)
    show ?thesis
    proof (cases "ALLOWED_HOSTS (settings w)")
      case None
      with d k show ?thesis
        by (cases "TENANT_DOMAIN (settings w)")
           (simp_all add: emitted_def handle_def Let_def)
    next
      case (Some allowed_hosts)
      with d k show ?thesis
        by (cases "TENANT_DOMAIN (settings w)")
           (simp_all add: emitted_def handle_def Let_def)
    qed
  qed
qed

lemma handle_result:
  "fst (handle w) =
    (case DEBUG (settings w) of None \<Rightarrow> Inl (AttributeError ''DEBUG'') | Some debug \<Rightarrow>
     case SECRET_KEY (settings w) of None \<Rightarrow> Inl (AttributeError ''SECRET_KEY'')
     | Some secret_key \<Rightarrow>
     case ALLOWED_HOSTS (settings w) of None \<Rightarrow> Inl (AttributeError ''ALLOWED_HOSTS'')
     | Some allowed_hosts \<Rightarrow> Inr ())"
proof (cases "DEBUG (settings w)")
  case None
  then show ?thesis by (simp add: handle_def Let_def)
next
  case d: (Some debug)
  show ?thesis
  proof (cases "SECRET_KEY (settings w)")
    case None
    with d show ?thesis by (simp add: handle_def Let_def)
  next
    case k: (Some secret_key)
    with d show ?thesis
      by (cases "ALLOWED_HOSTS (settings w)"; cases "TENANT_DOMAIN (settings w)")
         (simp_all add: handle_def Let_def)
  qed
qed

lemma handle_frame: "snd (handle w) = w\<lparr>stdout := stdout w @ emitted w\<rparr>"
  by (cases "DEBUG (settings w)"; cases "SECRET_KEY (settings w)";
      cases "ALLOWED_HOSTS (settings w)"; cases "TENANT_DOMAIN (settings w)")
     (simp_all add: emitted_def handle_def stdout_write_def Let_def)

subsection \<open>No two messages are equal\<close>

lemma warnings_distinct: "debug_warning \<noteq> secret_key_warning"
  by (simp add: debug_warning_def secret_key_warning_def emoji_warning_def)

lemma errors_distinct: "tenant_domain_missing \<noteq> allowed_hosts_missing"
  by (simp add: tenant_domain_missing_def allowed_hosts_missing_def emoji_cross_def)

lemma tenant_domain_ok_inj [simp]: "tenant_domain_ok d = tenant_domain_ok d' \<longleftrightarrow> d = d'"
  by (simp add: tenant_domain_ok_def)

lemma tenant_domain_ok_distinct:
  "tenant_domain_ok d \<noteq> allowed_hosts_ok" "allowed_hosts_ok \<noteq> tenant_domain_ok d"
  "tenant_domain_ok d \<noteq> tenant_model_ok" "tenant_model_ok \<noteq> tenant_domain_ok d"
  "tenant_domain_ok d \<noteq> summary tm" "summary tm \<noteq> tenant_domain_ok d"
  by (simp_all add: tenant_domain_ok_def allowed_hosts_ok_def tenant_model_ok_def
        summary_def emoji_check_def nl_def)

lemma allowed_hosts_ok_distinct:
  "allowed_hosts_ok \<noteq> tenant_model_ok" "tenant_model_ok \<noteq> allowed_hosts_ok"
  "allowed_hosts_ok \<noteq> summary tm" "summary tm \<noteq> allowed_hosts_ok"
  by (simp_all add: allowed_hosts_ok_def tenant_model_ok_def summary_def emoji_check_def nl_def)

lemma tenant_model_ok_distinct:
  "tenant_model_ok \<noteq> summary tm" "summary tm \<noteq> tenant_model_ok"
  by (simp_all add: tenant_model_ok_def summary_def emoji_check_def nl_def)

lemma banner_distinct:
  "banner \<noteq> tenant_domain_ok d" "tenant_domain_ok d \<noteq> banner"
  "banner \<noteq> allowed_hosts_ok" "allowed_hosts_ok \<noteq> banner"
  "banner \<noteq> tenant_model_ok" "tenant_model_ok \<noteq> banner"
  "banner \<noteq> summary tm" "summary tm \<noteq> banner"
proof -
  obtain r where b: "banner = CHR 0xF0 # r" using banner_head by blast
  show "banner \<noteq> tenant_domain_ok d" "tenant_domain_ok d \<noteq> banner"
    "banner \<noteq> allowed_hosts_ok" "allowed_hosts_ok \<noteq> banner"
    "banner \<noteq> tenant_model_ok" "tenant_model_ok \<noteq> banner"
    "banner \<noteq> summary tm" "summary tm \<noteq> banner"
    by (simp_all add: b tenant_domain_ok_def allowed_hosts_ok_def tenant_model_ok_def
          summary_def emoji_check_def nl_def)
qed

lemmas messages_distinct = warnings_distinct warnings_distinct [symmetric]
  errors_distinct errors_distinct [symmetric] tenant_domain_ok_distinct
  allowed_hosts_ok_distinct tenant_model_ok_distinct banner_distinct

lemma settings_fresh [simp]: "settings (fresh s) = s"
  by (simp add: fresh_def)

subsection \<open>The checks\<close>

text \<open>
  C6. The development-mode warning is among the messages of an invocation exactly when
  \<open>DEBUG\<close> is true. This holds for every settings object and every starting stream: the
  check on \<open>DEBUG\<close> is the first one, and no other message equals this warning.
\<close>

theorem debug_warning_iff:
  "(WARNING, debug_warning) \<in> set (emitted w) \<longleftrightarrow> DEBUG (settings w) = Some True"
  by (cases "DEBUG (settings w)"; cases "SECRET_KEY (settings w)";
      cases "ALLOWED_HOSTS (settings w)"; cases "TENANT_DOMAIN (settings w)")
     (auto simp add: emitted_eq messages_distinct)

text \<open>
  C4. Once \<open>DEBUG\<close> has been read, the insecure-key warning is among the messages exactly
  when \<open>SECRET_KEY\<close> has \<open>django-insecure\<close> as a substring, that is when the key is some
  prefix, then the marker, then some suffix.
\<close>

theorem secret_key_warning_iff:
  assumes "DEBUG (settings w) \<noteq> None"
  shows "(WARNING, secret_key_warning) \<in> set (emitted w) \<longleftrightarrow>
    (\<exists>secret_key pre suf. SECRET_KEY (settings w) = Some secret_key
       \<and> secret_key = pre @ ''django-insecure'' @ suf)"
  using assms
  by (cases "DEBUG (settings w)"; cases "SECRET_KEY (settings w)";
      cases "ALLOWED_HOSTS (settings w)"; cases "TENANT_DOMAIN (settings w)")
     (auto simp add: emitted_eq messages_distinct str_in_iff)

theorem secret_key_warning_iff_witness:
  "DEBUG (settings (fresh development_settings)) \<noteq> None
   \<and> (WARNING, secret_key_warning) \<in> set (emitted (fresh development_settings))"
proof -
  have d: "DEBUG (settings (fresh development_settings)) \<noteq> None"
    by (simp add: development_settings_def)
  have "str_in ''django-insecure'' ''django-insecure-0000''" by simp
  then have "\<exists>pre suf. ''django-insecure-0000'' = pre @ ''django-insecure'' @ suf"
    by (simp only: str_in_iff)
  then show ?thesis
    using d secret_key_warning_iff [OF d] by (simp add: development_settings_def)
qed

lemma tenant_domain_lines:
  assumes "DEBUG (settings w) \<noteq> None" and "SECRET_KEY (settings w) \<noteq> None"
  shows "filter (\<lambda>m. m = (ERROR, tenant_domain_missing)
                     \<or> (\<exists>d. m = (SUCCESS, tenant_domain_ok d))) (emitted w)
    = [case TENANT_DOMAIN (settings w) of
         Some tenant_domain \<Rightarrow> (SUCCESS, tenant_domain_ok tenant_domain)
       | None \<Rightarrow> (ERROR, tenant_domain_missing)]"
  using assms
  by (cases "DEBUG (settings w)"; cases "SECRET_KEY (settings w)";
      cases "ALLOWED_HOSTS (settings w)"; cases "TENANT_DOMAIN (settings w)")
     (auto simp add: emitted_eq messages_distinct)

lemma tenant_domain_ok_text:
  "tenant_domain_ok d = [CHR 0xE2, CHR 0x9C, CHR 0x85] @ '' TENANT_DOMAIN configurado: '' @ d"
  by (simp add: tenant_domain_ok_def emoji_check_def)

lemma tenant_domain_missing_text:
  "tenant_domain_missing = [CHR 0xE2, CHR 0x9D, CHR 0x8C] @ '' TENANT_DOMAIN no configurado''"
  by (simp add: tenant_domain_missing_def emoji_cross_def)

text \<open>
  C3. Once \<open>DEBUG\<close> and \<open>SECRET_KEY\<close> have been read, the messages of an invocation
  hold exactly one line of the \<open>TENANT_DOMAIN\<close> check. When the attribute is there it is
  the success line, whose text is the check mark U+2705, then
  \<open>TENANT_DOMAIN configurado:\<close> and a space, then the value of the attribute itself;
  when the attribute is not there it is the error line, whose text is the cross U+274C
  and \<open>TENANT_DOMAIN no configurado\<close>. The filter keeps the error line and every success
  line of this check, whatever value follows the colon.
\<close>

theorem tenant_domain_line:
  assumes "DEBUG (settings w) \<noteq> None" and "SECRET_KEY (settings w) \<noteq> None"
  shows "filter (\<lambda>m. m = (ERROR, [CHR 0xE2, CHR 0x9D, CHR 0x8C] @ '' TENANT_DOMAIN no configurado'')
                     \<or> (\<exists>d. m = (SUCCESS, [CHR 0xE2, CHR 0x9C, CHR 0x85]
                                            @ '' TENANT_DOMAIN configurado: '' @ d)))
            (emitted w)
    = [case TENANT_DOMAIN (settings w) of
         Some tenant_domain \<Rightarrow>
           (SUCCESS, [CHR 0xE2, CHR 0x9C, CHR 0x85]
                       @ '' TENANT_DOMAIN configurado: '' @ tenant_domain)
       | None \<Rightarrow> (ERROR, [CHR 0xE2, CHR 0x9D, CHR 0x8C] @ '' TENANT_DOMAIN no configurado'')]"
  using tenant_domain_lines [OF assms]
  unfolding tenant_domain_ok_text tenant_domain_missing_text .

theorem tenant_domain_line_witness:
  "DEBUG (settings (fresh production_settings)) \<noteq> None
   \<and> SECRET_KEY (settings (fresh production_settings)) \<noteq> None
   \<and> TENANT_DOMAIN (settings (fresh production_settings)) = Some ''acme.zentoerp.com''
   \<and> filter (\<lambda>m. m = (ERROR, [CHR 0xE2, CHR 0x9D, CHR 0x8C] @ '' TENANT_DOMAIN no configurado'')
                   \<or> (\<exists>d. m = (SUCCESS, [CHR 0xE2, CHR 0x9C, CHR 0x85]
                                          @ '' TENANT_DOMAIN configurado: '' @ d)))
        (emitted (fresh production_settings))
     = [(SUCCESS, [CHR 0xE2, CHR 0x9C, CHR 0x85]
                    @ '' TENANT_DOMAIN configurado: '' @ ''acme.zentoerp.com'')]"
proof -
  have d: "DEBUG (settings (fresh production_settings)) \<noteq> None"
    and k: "SECRET_KEY (settings (fresh production_settings)) \<noteq> None"
    and t: "TENANT_DOMAIN (settings (fresh production_settings)) = Some ''acme.zentoerp.com''"
    by (simp_all add: production_settings_def)
  show ?thesis
    using d k t tenant_domain_line [OF d k] by (simp only: t option.case) simp
qed

text \<open>
  C10. The \<open>TENANT_DOMAIN\<close> check looks at presence only. With the attribute there and
  empty, the success line is written, embedding the empty value, and the error line is
  not; the error line is written exactly when the attribute is not there.
\<close>

theorem tenant_domain_presence:
  assumes "DEBUG (settings w) \<noteq> None" and "SECRET_KEY (settings w) \<noteq> None"
  shows "(TENANT_DOMAIN (settings w) = Some [] \<longrightarrow>
            (SUCCESS, emoji_check @ '' TENANT_DOMAIN configurado: '') \<in> set (emitted w)
            \<and> (ERROR, tenant_domain_missing) \<notin> set (emitted w))
    \<and> ((ERROR, tenant_domain_missing) \<in> set (emitted w)
         \<longleftrightarrow> TENANT_DOMAIN (settings w) = None)"
  using assms
  by (cases "DEBUG (settings w)"; cases "SECRET_KEY (settings w)";
      cases "ALLOWED_HOSTS (settings w)"; cases "TENANT_DOMAIN (settings w)")
     (auto simp add: emitted_eq messages_distinct tenant_domain_ok_def)

theorem tenant_domain_presence_witness:
  "DEBUG (settings (fresh (production_settings\<lparr>TENANT_DOMAIN := Some []\<rparr>))) \<noteq> None
   \<and> SECRET_KEY (settings (fresh (production_settings\<lparr>TENANT_DOMAIN := Some []\<rparr>))) \<noteq> None
   \<and> TENANT_DOMAIN (settings (fresh (production_settings\<lparr>TENANT_DOMAIN := Some []\<rparr>)))
       = Some []
   \<and> (SUCCESS, emoji_check @ '' TENANT_DOMAIN configurado: '')
       \<in> set (emitted (fresh (production_settings\<lparr>TENANT_DOMAIN := Some []\<rparr>)))
   \<and> (ERROR, tenant_domain_missing)
       \<notin> set (emitted (fresh (production_settings\<lparr>TENANT_DOMAIN := Some []\<rparr>)))"
proof -
  let ?w = "fresh (production_settings\<lparr>TENANT_DOMAIN := Some []\<rparr>)"
  have d: "DEBUG (settings ?w) \<noteq> None" and k: "SECRET_KEY (settings ?w) \<noteq> None"
    by (simp_all add: production_settings_def)
  have t: "TENANT_DOMAIN (settings ?w) = Some []" by simp
  show ?thesis
    using d k t tenant_domain_presence [OF d k] by blast
qed

text \<open>
  C5. Once \<open>DEBUG\<close> and \<open>SECRET_KEY\<close> have been read and \<open>ALLOWED_HOSTS\<close> is there, the
  success line of the \<open>ALLOWED_HOSTS\<close> check is written exactly when \<open>*.zentoerp.com\<close>
  is an element of the sequence, and the error line exactly when it is not.
\<close>

theorem allowed_hosts_line:
  assumes "DEBUG (settings w) \<noteq> None" and "SECRET_KEY (settings w) \<noteq> None"
    and "ALLOWED_HOSTS (settings w) = Some allowed_hosts"
  shows "((SUCCESS, allowed_hosts_ok) \<in> set (emitted w)
           \<longleftrightarrow> ''*.zentoerp.com'' \<in> set allowed_hosts)
    \<and> ((ERROR, allowed_hosts_missing) \<in> set (emitted w)
           \<longleftrightarrow> ''*.zentoerp.com'' \<notin> set allowed_hosts)"
  using assms
  by (cases "DEBUG (settings w)"; cases "SECRET_KEY (settings w)";
      cases "TENANT_DOMAIN (settings w)")
     (auto simp add: emitted_eq messages_distinct)

theorem allowed_hosts_line_witness:
  "DEBUG (settings (fresh development_settings)) \<noteq> None
   \<and> SECRET_KEY (settings (fresh development_settings)) \<noteq> None
   \<and> ALLOWED_HOSTS (settings (fresh development_settings)) = Some [''zentoerp.com'']
   \<and> (SUCCESS, allowed_hosts_ok) \<notin> set (emitted (fresh development_settings))
   \<and> (ERROR, allowed_hosts_missing) \<in> set (emitted (fresh development_settings))"
proof -
  have d: "DEBUG (settings (fresh development_settings)) \<noteq> None"
    and k: "SECRET_KEY (settings (fresh development_settings)) \<noteq> None"
    and h: "ALLOWED_HOSTS (settings (fresh development_settings)) = Some [''zentoerp.com'']"
    by (simp_all add: development_settings_def)
  show ?thesis
    using d k h allowed_hosts_line [OF d k h] by simp
qed



subsection \<open>The invocation as a whole\<close>

text \<open>
  C7. When the three unguarded attributes are there, the messages of an invocation are,
  in this order: the banner; the \<open>DEBUG\<close> warning, if any; the \<open>SECRET_KEY\<close> warning, if
  any; the line of the \<open>TENANT_DOMAIN\<close> check; the line of the \<open>ALLOWED_HOSTS\<close> check;
  the success line of the tenant-model check, if any; the summary.
\<close>

theorem output_order:
  assumes "DEBUG (settings w) = Some debug" and "SECRET_KEY (settings w) = Some secret_key"
    and "ALLOWED_HOSTS (settings w) = Some allowed_hosts"
  shows "emitted w =
      [(SUCCESS, banner)]
    @ (if debug then [(WARNING, debug_warning)] else [])
    @ (if str_in ''django-insecure'' secret_key then [(WARNING, secret_key_warning)] else [])
    @ [case TENANT_DOMAIN (settings w) of
         Some tenant_domain \<Rightarrow> (SUCCESS, tenant_domain_ok tenant_domain)
       | None \<Rightarrow> (ERROR, tenant_domain_missing)]
    @ [if ''*.zentoerp.com'' \<in> set allowed_hosts
       then (SUCCESS, allowed_hosts_ok) else (ERROR, allowed_hosts_missing)]
    @ (if TENANT_MODEL (settings w) = Some ''tenants.Tenant''
       then [(SUCCESS, tenant_model_ok)] else [])
    @ [(SUCCESS, summary (case TENANT_MODEL (settings w) of
                            Some tenant_model \<Rightarrow> tenant_model
                          | None \<Rightarrow> ''No configurado''))]"
  using assms by (simp add: emitted_eq)

theorem output_order_witness:
  "DEBUG (settings (fresh development_settings)) = Some True
   \<and> SECRET_KEY (settings (fresh development_settings)) = Some ''django-insecure-0000''
   \<and> ALLOWED_HOSTS (settings (fresh development_settings)) = Some [''zentoerp.com'']
   \<and> emitted (fresh development_settings) =
       [(SUCCESS, banner), (WARNING, debug_warning), (WARNING, secret_key_warning),
        (ERROR, tenant_domain_missing), (ERROR, allowed_hosts_missing),
        (SUCCESS, summary ''No configurado'')]"
proof -
  have d: "DEBUG (settings (fresh development_settings)) = Some True"
    and k: "SECRET_KEY (settings (fresh development_settings)) = Some ''django-insecure-0000''"
    and h: "ALLOWED_HOSTS (settings (fresh development_settings)) = Some [''zentoerp.com'']"
    by (simp_all add: development_settings_def)
  show ?thesis
    using d k h output_order [OF d k h] by (simp add: development_settings_def)
qed

text \<open>
  C2. When the three unguarded attributes are there, the method returns normally, so the
  process ends with status 0, and the last message it wrote is the summary, which holds
  the value of \<open>TENANT_MODEL\<close> or the placeholder. None of this depends on what the
  checks found.
\<close>

theorem summary_and_exit_code:
  assumes "DEBUG (settings w) \<noteq> None" and "SECRET_KEY (settings w) \<noteq> None"
    and "ALLOWED_HOSTS (settings w) \<noteq> None"
  shows "fst (handle w) = Inr ()
    \<and> exit_code (fst (handle w)) = 0
    \<and> emitted w \<noteq> []
    \<and> last (emitted w) = (SUCCESS, summary (case TENANT_MODEL (settings w) of
                                               Some tenant_model \<Rightarrow> tenant_model
                                             | None \<Rightarrow> ''No configurado''))"
proof -
  obtain debug secret_key allowed_hosts
    where s: "DEBUG (settings w) = Some debug" "SECRET_KEY (settings w) = Some secret_key"
      "ALLOWED_HOSTS (settings w) = Some allowed_hosts"
    using assms by auto
  have r: "fst (handle w) = Inr ()"
    using s by (simp add: handle_result)
  then have x: "exit_code (fst (handle w)) = 0"
    by (simp add: exit_code_def)
  have n: "emitted w \<noteq> []"
    by (simp add: emitted_eq)
  have l: "last (emitted w) = (SUCCESS, summary (case TENANT_MODEL (settings w) of
                                                   Some tenant_model \<Rightarrow> tenant_model
                                                 | None \<Rightarrow> ''No configurado''))"
    using s by (simp add: emitted_eq)
  from r x n l show ?thesis by blast
qed

theorem summary_and_exit_code_witness:
  "DEBUG (settings (fresh development_settings)) \<noteq> None
   \<and> SECRET_KEY (settings (fresh development_settings)) \<noteq> None
   \<and> ALLOWED_HOSTS (settings (fresh development_settings)) \<noteq> None
   \<and> exit_code (fst (handle (fresh development_settings))) = 0
   \<and> last (emitted (fresh development_settings)) = (SUCCESS, summary ''No configurado'')"
proof -
  have d: "DEBUG (settings (fresh development_settings)) \<noteq> None"
    and k: "SECRET_KEY (settings (fresh development_settings)) \<noteq> None"
    and h: "ALLOWED_HOSTS (settings (fresh development_settings)) \<noteq> None"
    by (simp_all add: development_settings_def)
  show ?thesis
    using d k h summary_and_exit_code [OF d k h]
    by (simp add: development_settings_def exit_code_def)
qed

text \<open>
  C8. When one of the three unguarded attributes is not there, reading it raises and the
  method does not catch it: the result is the exception for the first such attribute in
  reading order, the process status is not 0, the summary is not written, and no error
  line reports the fault (the only error line that can have been written by then is the
  one of the \<open>TENANT_DOMAIN\<close> check).
\<close>

theorem missing_attribute_propagates:
  assumes "DEBUG (settings w) = None \<or> SECRET_KEY (settings w) = None
           \<or> ALLOWED_HOSTS (settings w) = None"
  shows "fst (handle w) = Inl (AttributeError
             (if DEBUG (settings w) = None then ''DEBUG''
              else if SECRET_KEY (settings w) = None then ''SECRET_KEY''
              else ''ALLOWED_HOSTS''))
    \<and> exit_code (fst (handle w)) = 1
    \<and> (\<forall>tm. (SUCCESS, summary tm) \<notin> set (emitted w))
    \<and> (\<forall>msg. (ERROR, msg) \<in> set (emitted w) \<longrightarrow> msg = tenant_domain_missing)"
proof -
  have r: "fst (handle w) = Inl (AttributeError
             (if DEBUG (settings w) = None then ''DEBUG''
              else if SECRET_KEY (settings w) = None then ''SECRET_KEY''
              else ''ALLOWED_HOSTS''))"
    using assms
    by (cases "DEBUG (settings w)"; cases "SECRET_KEY (settings w)";
        cases "ALLOWED_HOSTS (settings w)") (simp_all add: handle_result)
  then have x: "exit_code (fst (handle w)) = 1"
    by (simp add: exit_code_def)
  have n: "(SUCCESS, summary tm) \<notin> set (emitted w)" for tm
    using assms
    by (cases "DEBUG (settings w)"; cases "SECRET_KEY (settings w)";
        cases "ALLOWED_HOSTS (settings w)"; cases "TENANT_DOMAIN (settings w)")
       (auto simp add: emitted_eq messages_distinct)
  have e: "msg = tenant_domain_missing" if "(ERROR, msg) \<in> set (emitted w)" for msg
    using assms that
    by (cases "DEBUG (settings w)"; cases "SECRET_KEY (settings w)";
        cases "ALLOWED_HOSTS (settings w)"; cases "TENANT_DOMAIN (settings w)")
       (auto simp add: emitted_eq split: if_splits)
  from r x n e show ?thesis by blast
qed

theorem missing_attribute_propagates_witness:
  "SECRET_KEY (settings (fresh (production_settings\<lparr>SECRET_KEY := None\<rparr>))) = None
   \<and> fst (handle (fresh (production_settings\<lparr>SECRET_KEY := None\<rparr>)))
       = Inl (AttributeError ''SECRET_KEY'')
   \<and> exit_code (fst (handle (fresh (production_settings\<lparr>SECRET_KEY := None\<rparr>)))) = 1"
proof -
  let ?w = "fresh (production_settings\<lparr>SECRET_KEY := None\<rparr>)"
  have k: "SECRET_KEY (settings ?w) = None" by simp
  have d: "DEBUG (settings ?w) \<noteq> None" by (simp add: production_settings_def)
  have a: "DEBUG (settings ?w) = None \<or> SECRET_KEY (settings ?w) = None
           \<or> ALLOWED_HOSTS (settings ?w) = None"
    using k by blast
  show ?thesis
    using k d missing_attribute_propagates [OF a]
    by (simp add: production_settings_def exit_code_def)
qed

text \<open>
  C9. Whatever the settings and whether or not the method returns normally, the world
  after an invocation is the world before it with the messages of the invocation
  appended to the output stream: the settings and everything outside the stream are
  what they were, and what the stream already held is still there.
\<close>

theorem only_stdout_changes:
  "snd (handle w) = w\<lparr>stdout := stdout w @ emitted w\<rparr>
   \<and> settings (snd (handle w)) = settings w
   \<and> world.more (snd (handle w)) = world.more w"
proof -
  have f: "snd (handle w) = w\<lparr>stdout := stdout w @ emitted w\<rparr>"
    by (rule handle_frame)
  have "settings (w\<lparr>stdout := stdout w @ emitted w\<rparr>) = settings w"
    and "world.more (w\<lparr>stdout := stdout w @ emitted w\<rparr>) = world.more w"
    by simp_all
  with f show ?thesis by simp
qed

end
